theory Spec2Isabelle
  imports Main "HOL-Library.Word"
begin

section \<open>Data model of the motion sensor application\<close>

text \<open>
  Modelled from the spec: the struct \<open>wiced_bt_mesh_sensor_config_cadence_t\<close> is declared
  in an SDK header that is not part of the repository's sources. The field list is the one
  the source file initialises and reads; the field types follow the data model of the
  specification (section 3): the divisor (16 bits), both trigger deltas and the minimum
  interval (32 bits) are unsigned, the two fast cadence bounds are signed 32-bit integers,
  the trigger type is a boolean. All 32-bit fields are kept as raw \<open>32 word\<close>s; a signed
  field is read with \<open>sint\<close>. By the usual arithmetic conversions of C, an \<open>int32_t\<close>
  combined with an unsigned 32-bit field is converted to \<open>uint32_t\<close>: the sum, difference
  or comparison is unsigned and wraps around.
\<close>

record cadence_t =
  fast_cadence_period_divisor :: "16 word"
  trigger_type_percentage :: bool
  trigger_delta_down :: "32 word"
  trigger_delta_up :: "32 word"
  min_interval :: "32 word"
  fast_cadence_low :: "32 word"
  fast_cadence_high :: "32 word"

text \<open>
  The global variables of the file, the cadence of the only sensor of the only element
  (\<open>mesh_element1_sensors[0].cadence\<close>), the two timers (\<open>None\<close>: stopped, \<open>Some t\<close>:
  armed for \<open>t\<close>), the NVRAM slot \<open>MESH_MOTION_SENSOR_CADENCE_VSID_START\<close>, and the list of
  calls \<open>wiced_bt_mesh_model_sensor_server_data(element, property, NULL)\<close> made by
  \<open>mesh_sensor_publish\<close>, each recorded as (value sent, tick count).
  \<open>int32_t\<close> variables are raw \<open>32 word\<close>s, read with \<open>sint\<close> where C compares them
  as signed.
\<close>

record app_state =
  cadence :: cadence_t
  mesh_sensor_sent_value :: "32 word"
  mesh_sensor_pub_value :: "32 word"
  mesh_sensor_pub_time :: "32 word"
  mesh_sensor_publish_period :: "32 word"
  mesh_sensor_fast_publish_period :: "32 word"
  mesh_sensor_sleep_max_time :: "32 word"
  presence_detected :: bool
  mesh_sensor_cadence_timer :: "32 word option"
  mesh_sensor_presence_detected_timer :: "32 word option"
  nvram_cadence :: "cadence_t option"
  published :: "(32 word \<times> 32 word) list"

text \<open>
  What C leaves undefined and the file does not guard against: an unsigned division by
  zero, and an index outside \<open>mesh_config.elements\<close> (one element).
\<close>

datatype fault = DivideByZero | IndexOutOfRange

definition MESH_PRESENCE_DETECTED_BLIND_TIME :: "32 word" where
  "MESH_PRESENCE_DETECTED_BLIND_TIME = 7"

definition MESH_MOTION_SENSOR_INDEX :: "8 word" where
  "MESH_MOTION_SENSOR_INDEX = 0"

definition MESH_SENSOR_SERVER_ELEMENT_INDEX :: "8 word" where
  "MESH_SENSOR_SERVER_ELEMENT_INDEX = 0"

text \<open>The number of entries of \<open>mesh_elements\<close>.\<close>

definition elements_num :: "8 word" where
  "elements_num = 1"

text \<open>The initialiser of \<open>mesh_element1_sensors[0].cadence\<close>.\<close>

definition default_cadence :: cadence_t where
  "default_cadence =
     \<lparr> fast_cadence_period_divisor = 1,
       trigger_type_percentage = False,
       trigger_delta_down = 0,
       trigger_delta_up = 0,
       min_interval = 1024,
       fast_cadence_low = 0,
       fast_cadence_high = 0 \<rparr>"

text \<open>The globals as their initialisers (or zero initialisation) leave them.\<close>

definition initial_state :: "cadence_t \<Rightarrow> app_state" where
  "initial_state c =
     \<lparr> cadence = c,
       mesh_sensor_sent_value = 0,
       mesh_sensor_pub_value = 0,
       mesh_sensor_pub_time = 0,
       mesh_sensor_publish_period = 0,
       mesh_sensor_fast_publish_period = 0,
       mesh_sensor_sleep_max_time = 0,
       presence_detected = False,
       mesh_sensor_cadence_timer = None,
       mesh_sensor_presence_detected_timer = None,
       nvram_cadence = None,
       published = [] \<rparr>"

section \<open>Operations\<close>

text \<open>
  \<open>wiced_bt_mesh_core_get_tick_count()\<close> is an external clock. Every handler runs to
  completion on the event loop; the tick count it reads is the parameter \<open>now\<close>.
\<close>

text \<open>\<open>mesh_sensor_get_current_value\<close>: \<open>return presence_detected;\<close>\<close>

definition mesh_sensor_get_current_value :: "app_state \<Rightarrow> 32 word" where
  "mesh_sensor_get_current_value s = (if presence_detected s then 1 else 0)"

text \<open>\<open>mesh_sensor_publish\<close>\<close>

definition mesh_sensor_publish :: "32 word \<Rightarrow> app_state \<Rightarrow> app_state" where
  "mesh_sensor_publish now s =
     (let v = mesh_sensor_get_current_value s
      in s\<lparr> mesh_sensor_sent_value := v,
            mesh_sensor_pub_value := v,
            mesh_sensor_pub_time := now,
            published := published s @ [(v, now)] \<rparr>)"

text \<open>
  \<open>mesh_sensor_server_restart_timer\<close>. The divisor is promoted to the type of the
  period, the division is unsigned; it is reached with a divisor above 1 only.
\<close>

definition mesh_sensor_server_restart_timer :: "app_state \<Rightarrow> app_state" where
  "mesh_sensor_server_restart_timer s =
     (let c = cadence s;
          timeout = mesh_sensor_publish_period s;
          s1 = s\<lparr> mesh_sensor_cadence_timer := None \<rparr>
      in if timeout = 0 then s1
         else
           let (timeout2, s2) =
                 (if 1 < fast_cadence_period_divisor c
                  then (let t = mesh_sensor_publish_period s div ucast (fast_cadence_period_divisor c)
                        in (t, s1\<lparr> mesh_sensor_fast_publish_period := t \<rparr>))
                  else (timeout, s1\<lparr> mesh_sensor_fast_publish_period := 0 \<rparr>));
               timeout3 =
                 (if min_interval c \<noteq> 0 \<and> timeout2 < min_interval c \<and>
                     (trigger_delta_up c \<noteq> 0 \<or> trigger_delta_down c \<noteq> 0)
                  then min_interval c else timeout2)
           in s2\<lparr> mesh_sensor_sleep_max_time := timeout3,
                  mesh_sensor_cadence_timer := Some timeout3 \<rparr>)"

text \<open>
  \<open>mesh_app_notify_period_set\<close>. The macros \<open>MESH_COMPANY_ID_BT_SIG\<close> and
  \<open>WICED_BT_MESH_CORE_MODEL_ID_SENSOR_SRV\<close> come from SDK headers; they are the
  parameters \<open>company_sig\<close> and \<open>model_srv\<close>. After the test the element index is 0,
  the only element.
\<close>

definition mesh_app_notify_period_set ::
  "16 word \<Rightarrow> 16 word \<Rightarrow> 8 word \<Rightarrow> 16 word \<Rightarrow> 16 word \<Rightarrow> 32 word \<Rightarrow> app_state \<Rightarrow> bool \<times> app_state" where
  "mesh_app_notify_period_set company_sig model_srv element_idx company_id model_id period s =
     (if element_idx \<noteq> MESH_MOTION_SENSOR_INDEX \<or> company_id \<noteq> company_sig \<or> model_id \<noteq> model_srv
      then (False, s)
      else
        let s1 = s\<lparr> mesh_sensor_publish_period := period \<rparr>;
            s2 = mesh_sensor_server_restart_timer s1
        in (True, s2\<lparr> mesh_sensor_pub_time := 0 \<rparr>))"

text \<open>
  \<open>mesh_sensor_server_process_cadence_changed\<close>. It returns \<open>void\<close>; \<open>p_data\<close> is only
  traced. The cadence it saves and rearms with is the one already in the sensor's
  configuration. \<open>mesh_config.elements[element_idx]\<close> is read without a check.
\<close>

definition mesh_sensor_server_process_cadence_changed :: "8 word \<Rightarrow> app_state \<Rightarrow> fault + app_state" where
  "mesh_sensor_server_process_cadence_changed element_idx s =
     (if elements_num \<le> element_idx then Inl IndexOutOfRange
      else
        let s1 = s\<lparr> nvram_cadence := Some (cadence s) \<rparr>;
            s2 = mesh_sensor_server_restart_timer s1
        in Inr (s2\<lparr> mesh_sensor_pub_time := 0 \<rparr>))"

subsection \<open>The publication timer callback\<close>

text \<open>
  The native trigger test. The deltas are unsigned, so \<open>mesh_sensor_pub_value + delta\<close>
  and \<open>mesh_sensor_pub_value - delta\<close> are computed in \<open>uint32_t\<close> (wrapping) and the
  comparisons with \<open>current_value\<close> are unsigned.
\<close>

definition native_trigger :: "cadence_t \<Rightarrow> 32 word \<Rightarrow> 32 word \<Rightarrow> bool" where
  "native_trigger c current_value pub_value \<longleftrightarrow>
     (trigger_delta_up c \<noteq> 0 \<and> pub_value + trigger_delta_up c \<le> current_value) \<or>
     (trigger_delta_down c \<noteq> 0 \<and> current_value \<le> pub_value - trigger_delta_down c)"

text \<open>\<open>a / b\<close> on \<open>uint32_t\<close>.\<close>

definition udiv32 :: "32 word \<Rightarrow> 32 word \<Rightarrow> fault + 32 word" where
  "udiv32 a b = (if b = 0 then Inl DivideByZero else Inr (a div b))"

text \<open>
  The percentage trigger test: \<open>(uint32_t)(a - b) * 10000 / current_value\<close>, compared
  (unsigned) with the delta. \<open>current_value\<close> and \<open>mesh_sensor_pub_value\<close> are both
  \<open>int32_t\<close>, so the tests \<open>>\<close> and \<open><\<close> between them are signed.
\<close>

definition percent_trigger :: "cadence_t \<Rightarrow> 32 word \<Rightarrow> 32 word \<Rightarrow> fault + bool" where
  "percent_trigger c current_value pub_value =
     (if trigger_delta_up c \<noteq> 0 \<and> sint pub_value < sint current_value
      then (case udiv32 ((current_value - pub_value) * 10000) current_value of
              Inl e \<Rightarrow> Inl e
            | Inr q \<Rightarrow> Inr (trigger_delta_up c < q))
      else if trigger_delta_down c \<noteq> 0 \<and> sint current_value < sint pub_value
      then (case udiv32 ((pub_value - current_value) * 10000) current_value of
              Inl e \<Rightarrow> Inl e
            | Inr q \<Rightarrow> Inr (trigger_delta_down c < q))
      else Inr False)"

text \<open>The body of \<open>if (!pub_needed && (delta up or down configured))\<close>.\<close>

definition delta_trigger :: "cadence_t \<Rightarrow> 32 word \<Rightarrow> 32 word \<Rightarrow> fault + bool" where
  "delta_trigger c current_value pub_value =
     (if \<not> trigger_type_percentage c
      then Inr (native_trigger c current_value pub_value)
      else percent_trigger c current_value pub_value)"

text \<open>The three cases on the fast cadence bounds.\<close>

definition fast_cadence_trigger :: "cadence_t \<Rightarrow> 32 word \<Rightarrow> bool" where
  "fast_cadence_trigger c current_value =
     (if sint (fast_cadence_low c) < sint (fast_cadence_high c)
      then sint (fast_cadence_low c) < sint current_value \<and>
           sint current_value \<le> sint (fast_cadence_high c)
      else if sint (fast_cadence_high c) < sint (fast_cadence_low c)
      then sint (fast_cadence_low c) \<le> sint current_value \<or>
           sint current_value < sint (fast_cadence_high c)
      else current_value = fast_cadence_low c)"

text \<open>
  The \<open>else\<close> branch of the callback up to \<open>if (pub_needed)\<close>: the value of
  \<open>pub_needed\<close> after the three blocks, each of which can only set it.
\<close>

definition tick_pub_needed :: "app_state \<Rightarrow> 32 word \<Rightarrow> 32 word \<Rightarrow> fault + bool" where
  "tick_pub_needed s current_time current_value =
     (let c = cadence s;
          elapsed = current_time - mesh_sensor_pub_time s;
          pub_needed1 =
            (mesh_sensor_publish_period s \<noteq> 0 \<and> mesh_sensor_publish_period s \<le> elapsed)
      in case (if \<not> pub_needed1 \<and> (trigger_delta_up c \<noteq> 0 \<or> trigger_delta_down c \<noteq> 0)
               then delta_trigger c current_value (mesh_sensor_pub_value s)
               else Inr pub_needed1) of
           Inl e \<Rightarrow> Inl e
         | Inr pub_needed2 \<Rightarrow>
             Inr (if \<not> pub_needed2 \<and> mesh_sensor_fast_publish_period s \<noteq> 0
                  then (if mesh_sensor_fast_publish_period s \<le> elapsed
                        then fast_cadence_trigger c current_value
                        else pub_needed2)
                  else pub_needed2))"

text \<open>\<open>mesh_sensor_publish_timer_callback\<close>\<close>

definition mesh_sensor_publish_timer_callback :: "32 word \<Rightarrow> app_state \<Rightarrow> fault + app_state" where
  "mesh_sensor_publish_timer_callback now s =
     (let c = cadence s;
          current_time = now;
          current_value = mesh_sensor_get_current_value s
      in if min_interval c \<noteq> 0 \<and> current_time - mesh_sensor_pub_time s < min_interval c
         then Inr (mesh_sensor_server_restart_timer s)
         else (case tick_pub_needed s current_time current_value of
                 Inl e \<Rightarrow> Inl e
               | Inr pub_needed \<Rightarrow>
                   Inr (mesh_sensor_server_restart_timer
                          (if pub_needed then mesh_sensor_publish now s else s))))"

subsection \<open>Presence changes\<close>

text \<open>\<open>mesh_sensor_value_changed\<close>; all its comparisons are on \<open>uint32_t\<close>.\<close>

definition mesh_sensor_value_changed :: "32 word \<Rightarrow> app_state \<Rightarrow> app_state" where
  "mesh_sensor_value_changed now s =
     (let c = cadence s
      in if mesh_sensor_publish_period s \<noteq> 0 then s
         else if fast_cadence_period_divisor c = 1 \<and> trigger_delta_up c = 0 \<and>
                 trigger_delta_down c = 0
         then mesh_sensor_publish now s
         else
           let current_time = now
           in if current_time < mesh_sensor_pub_time s + min_interval c then s
              else
                let current_value = mesh_sensor_get_current_value s
                in if (trigger_delta_down c \<noteq> 0 \<and>
                         current_value < mesh_sensor_pub_value s - trigger_delta_down c) \<or>
                      (trigger_delta_up c \<noteq> 0 \<and>
                         mesh_sensor_pub_value s - trigger_delta_up c < current_value)
                   then mesh_sensor_server_restart_timer (mesh_sensor_publish now s)
                   else s)"

text \<open>\<open>e93196_int_proc\<close>: the interrupt of the PIR sensor.\<close>

definition e93196_int_proc :: "32 word \<Rightarrow> app_state \<Rightarrow> app_state" where
  "e93196_int_proc now s =
     (let s1 = s\<lparr> mesh_sensor_presence_detected_timer :=
                    Some (2 * MESH_PRESENCE_DETECTED_BLIND_TIME) \<rparr>
      in if \<not> presence_detected s1
         then mesh_sensor_value_changed now (s1\<lparr> presence_detected := True \<rparr>)
         else s1)"

text \<open>\<open>mesh_sensor_presence_detected_timer_callback\<close>\<close>

definition mesh_sensor_presence_detected_timer_callback :: "32 word \<Rightarrow> app_state \<Rightarrow> app_state" where
  "mesh_sensor_presence_detected_timer_callback now s =
     (if presence_detected s
      then mesh_sensor_value_changed now (s\<lparr> presence_detected := False \<rparr>)
      else s)"

section \<open>Executions\<close>

text \<open>
  The events the decision engine reacts to, each with the tick count its handler reads:
  the cadence timer fires, the PIR sensor raises its interrupt, the blind timer expires.
\<close>

datatype event = Tick "32 word" | Edge "32 word" | BlindExpire "32 word"

fun event_time :: "event \<Rightarrow> 32 word" where
  "event_time (Tick now) = now"
| "event_time (Edge now) = now"
| "event_time (BlindExpire now) = now"

fun handle_event :: "app_state \<Rightarrow> event \<Rightarrow> fault + app_state" where
  "handle_event s (Tick now) = mesh_sensor_publish_timer_callback now s"
| "handle_event s (Edge now) = Inr (e93196_int_proc now s)"
| "handle_event s (BlindExpire now) = Inr (mesh_sensor_presence_detected_timer_callback now s)"

text \<open>
  An execution handles the events one after the other and stops at the first fault, in the
  state reached before it (with the calls to publish made so far).
\<close>

fun run_events :: "app_state \<Rightarrow> event list \<Rightarrow> app_state" where
  "run_events s [] = s"
| "run_events s (e # es) =
     (case handle_event s e of Inl f \<Rightarrow> s | Inr s' \<Rightarrow> run_events s' es)"

text \<open>
  Consecutive time stamps are at least \<open>I\<close> ticks apart; the distance is the one the
  code measures, \<open>t2 - t1\<close> on \<open>uint32_t\<close>.
\<close>

fun min_gap_ok :: "32 word \<Rightarrow> 32 word list \<Rightarrow> bool" where
  "min_gap_ok I [] = True"
| "min_gap_ok I [t] = True"
| "min_gap_ok I (t1 # t2 # ts) = (I \<le> t2 - t1 \<and> min_gap_ok I (t2 # ts))"

text \<open>The test "cadence is not configured" of \<open>mesh_sensor_value_changed\<close>.\<close>

definition cadence_unconfigured :: "cadence_t \<Rightarrow> bool" where
  "cadence_unconfigured c \<longleftrightarrow>
     fast_cadence_period_divisor c = 1 \<and> trigger_delta_up c = 0 \<and> trigger_delta_down c = 0"

text \<open>
  The invariant behind the minimum interval: the publications so far are far enough
  apart, the last one is the one \<open>mesh_sensor_pub_time\<close> remembers, and, when no period
  is set, adding \<open>I\<close> to it does not wrap around.
\<close>

definition gap_inv :: "32 word \<Rightarrow> app_state \<Rightarrow> bool" where
  "gap_inv I s \<longleftrightarrow>
     min_gap_ok I (map snd (published s)) \<and>
     (published s \<noteq> [] \<longrightarrow> mesh_sensor_pub_time s = snd (last (published s))) \<and>
     (mesh_sensor_publish_period s = 0 \<longrightarrow> published s \<noteq> [] \<longrightarrow>
        unat (mesh_sensor_pub_time s) + unat I < 2 ^ 32)"

section \<open>The specification's wording, for comparison\<close>

text \<open>
  The tick evaluation policy as the specification words it: a strict cascade in which a
  configured delta trigger alone decides, and the fast cadence window is consulted only
  when no delta is configured.
\<close>

definition tick_policy_claimed :: "app_state \<Rightarrow> 32 word \<Rightarrow> fault + bool" where
  "tick_policy_claimed s now =
     (let c = cadence s;
          elapsed = now - mesh_sensor_pub_time s;
          v = mesh_sensor_get_current_value s
      in if min_interval c \<noteq> 0 \<and> elapsed < min_interval c then Inr False
         else if mesh_sensor_publish_period s \<noteq> 0 \<and> mesh_sensor_publish_period s \<le> elapsed
         then Inr True
         else if trigger_delta_up c \<noteq> 0 \<or> trigger_delta_down c \<noteq> 0
         then delta_trigger c v (mesh_sensor_pub_value s)
         else if mesh_sensor_fast_publish_period s \<noteq> 0 \<and>
                 mesh_sensor_fast_publish_period s \<le> elapsed
         then Inr (fast_cadence_trigger c v)
         else Inr False)"

text \<open>
  The restartTimer algorithm as the specification words it: \<open>timeout\<close> starts as the
  publish period, \<open>fast_timeout\<close> is a value of its own, and only the minimum interval
  can replace \<open>timeout\<close>.
\<close>

definition restart_timer_claimed :: "app_state \<Rightarrow> app_state" where
  "restart_timer_claimed s =
     (let c = cadence s;
          timeout = mesh_sensor_publish_period s;
          s1 = s\<lparr> mesh_sensor_cadence_timer := None \<rparr>
      in if timeout = 0 then s1
         else
           let fast_timeout =
                 (if 1 < fast_cadence_period_divisor c
                  then mesh_sensor_publish_period s div ucast (fast_cadence_period_divisor c)
                  else 0);
               timeout2 =
                 (if min_interval c \<noteq> 0 \<and> timeout < min_interval c \<and>
                     (trigger_delta_up c \<noteq> 0 \<or> trigger_delta_down c \<noteq> 0)
                  then min_interval c else timeout)
           in s1\<lparr> mesh_sensor_fast_publish_period := fast_timeout,
                  mesh_sensor_sleep_max_time := timeout2,
                  mesh_sensor_cadence_timer := Some timeout2 \<rparr>)"

text \<open>
  The specification's condition on a cadence (section 3, \<open>fast_period_divisor: uint >= 1\<close>);
  a cadence that fails it is what the specification calls malformed.
\<close>

definition cadence_valid :: "cadence_t \<Rightarrow> bool" where
  "cadence_valid c \<longleftrightarrow> 1 \<le> fast_cadence_period_divisor c"

section \<open>Concrete configurations\<close>

text \<open>
  Period 320000 ms with divisor 32, a native up trigger of 5 and the fast window (0, 1];
  presence was published at 320000.
\<close>

definition fast_window_cadence :: cadence_t where
  "fast_window_cadence =
     \<lparr> fast_cadence_period_divisor = 32,
       trigger_type_percentage = False,
       trigger_delta_down = 0,
       trigger_delta_up = 5,
       min_interval = 0,
       fast_cadence_low = 0,
       fast_cadence_high = 1 \<rparr>"

definition fast_window_state :: app_state where
  "fast_window_state =
     (initial_state fast_window_cadence)
       \<lparr> mesh_sensor_sent_value := 1,
         mesh_sensor_pub_value := 1,
         mesh_sensor_pub_time := 320000,
         mesh_sensor_publish_period := 320000,
         mesh_sensor_fast_publish_period := 10000,
         mesh_sensor_sleep_max_time := 10000,
         presence_detected := True,
         mesh_sensor_cadence_timer := Some 10000,
         published := [(1, 320000)] \<rparr>"

text \<open>The scenario of the file's header: period 320000 ms, divisor 32.\<close>

definition divisor32_state :: app_state where
  "divisor32_state =
     (initial_state (default_cadence\<lparr> fast_cadence_period_divisor := 32 \<rparr>))
       \<lparr> mesh_sensor_publish_period := 320000 \<rparr>"

definition window_cadence :: "32 word \<Rightarrow> 32 word \<Rightarrow> cadence_t" where
  "window_cadence low high =
     default_cadence\<lparr> fast_cadence_period_divisor := 32,
                      fast_cadence_low := low, fast_cadence_high := high \<rparr>"

text \<open>No period, cadence not configured, a minimum interval of 65536 ms.\<close>

definition long_interval_state :: app_state where
  "long_interval_state = initial_state (default_cadence\<lparr> min_interval := 65536 \<rparr>)"

definition periodic_state :: app_state where
  "periodic_state = (initial_state default_cadence)\<lparr> mesh_sensor_publish_period := 320000 \<rparr>"

definition down_trigger_state :: app_state where
  "down_trigger_state = initial_state (default_cadence\<lparr> trigger_delta_down := 2 \<rparr>)"


text \<open>A cadence with divisor 0 in the sensor's configuration, period 320000 ms.\<close>

definition zero_divisor_state :: app_state where
  "zero_divisor_state =
     (initial_state (default_cadence\<lparr> fast_cadence_period_divisor := 0 \<rparr>))
       \<lparr> mesh_sensor_publish_period := 320000, mesh_sensor_pub_time := 5000 \<rparr>"


text \<open>No period, a native up trigger of 5, nothing published yet.\<close>

definition up_trigger_state :: app_state where
  "up_trigger_state = initial_state (default_cadence\<lparr> trigger_delta_up := 5 \<rparr>)"



text \<open>
  Shortly after start: divisor 32, no period yet, presence detected at tick count 500
  (not published: the minimum interval of 1024 has not elapsed), and then the state the
  period notification for 320000 leaves. The two SDK macros are given the values of the
  Bluetooth SIG company id and of the sensor server model id.
\<close>

definition just_booted_state :: app_state where
  "just_booted_state =
     e93196_int_proc 500 (initial_state (default_cadence\<lparr> fast_cadence_period_divisor := 32 \<rparr>))"

definition period_set_state :: app_state where
  "period_set_state =
     snd (mesh_app_notify_period_set 0xFFFF 0x1100 MESH_MOTION_SENSOR_INDEX 0xFFFF 0x1100 320000
            just_booted_state)"

section \<open>Auxiliary facts\<close>

lemmas word_eval =
  word_le_nat_alt word_less_nat_alt unsigned_minus_1_eq_mask mask_eq_exp_minus_1

lemma restart_timer_keeps:
  "cadence (mesh_sensor_server_restart_timer s) = cadence s"
  "mesh_sensor_publish_period (mesh_sensor_server_restart_timer s) = mesh_sensor_publish_period s"
  "mesh_sensor_pub_time (mesh_sensor_server_restart_timer s) = mesh_sensor_pub_time s"
  "mesh_sensor_pub_value (mesh_sensor_server_restart_timer s) = mesh_sensor_pub_value s"
  "mesh_sensor_sent_value (mesh_sensor_server_restart_timer s) = mesh_sensor_sent_value s"
  "presence_detected (mesh_sensor_server_restart_timer s) = presence_detected s"
  "published (mesh_sensor_server_restart_timer s) = published s"
  "nvram_cadence (mesh_sensor_server_restart_timer s) = nvram_cadence s"
  "mesh_sensor_presence_detected_timer (mesh_sensor_server_restart_timer s) =
     mesh_sensor_presence_detected_timer s"
  by (simp_all add: mesh_sensor_server_restart_timer_def Let_def split_def)

lemma publish_fields:
  "cadence (mesh_sensor_publish now s) = cadence s"
  "mesh_sensor_publish_period (mesh_sensor_publish now s) = mesh_sensor_publish_period s"
  "mesh_sensor_pub_time (mesh_sensor_publish now s) = now"
  "mesh_sensor_pub_value (mesh_sensor_publish now s) = mesh_sensor_get_current_value s"
  "presence_detected (mesh_sensor_publish now s) = presence_detected s"
  "published (mesh_sensor_publish now s) =
     published s @ [(mesh_sensor_get_current_value s, now)]"
  by (simp_all add: mesh_sensor_publish_def Let_def)

lemma tick_result_cases:
  assumes "mesh_sensor_publish_timer_callback now s = Inr s'"
  shows "s' = mesh_sensor_server_restart_timer s \<or>
         s' = mesh_sensor_server_restart_timer (mesh_sensor_publish now s)"
  using assms
  by (auto simp add: mesh_sensor_publish_timer_callback_def Let_def
      split: if_splits sum.splits)

section \<open>The tick evaluation policy\<close>

text \<open>
  C1 (as the code has it). On every tick the callback decides in this order, and in every
  case in which it returns it returns through \<open>mesh_sensor_server_restart_timer\<close>:
  (a) with a minimum interval set and less than it elapsed since the last publication,
  suppress; (b) else with a period set and at least the period elapsed, publish; (c) else
  with a delta trigger configured and its condition true, publish; (d) else, whether no
  delta trigger is configured or the configured one did not fire, with the fast period
  enabled and at least the fast period elapsed, publish iff the fast cadence window test
  holds; (e) otherwise suppress. A fault of the percentage division is passed on.
  The cascade of the claim stops at a configured delta trigger; the code goes on to the
  fast cadence window when the trigger did not fire.
\<close>

theorem tick_precedence:
  "mesh_sensor_publish_timer_callback now s =
     (let c = cadence s;
          elapsed = now - mesh_sensor_pub_time s;
          v = mesh_sensor_get_current_value s;
          suppress = Inr (mesh_sensor_server_restart_timer s);
          publish = Inr (mesh_sensor_server_restart_timer (mesh_sensor_publish now s));
          fast_stage =
            (if mesh_sensor_fast_publish_period s \<noteq> 0 \<and>
                mesh_sensor_fast_publish_period s \<le> elapsed \<and> fast_cadence_trigger c v
             then publish else suppress)
      in if min_interval c \<noteq> 0 \<and> elapsed < min_interval c then suppress
         else if mesh_sensor_publish_period s \<noteq> 0 \<and> mesh_sensor_publish_period s \<le> elapsed
         then publish
         else if trigger_delta_up c \<noteq> 0 \<or> trigger_delta_down c \<noteq> 0
         then (case delta_trigger c v (mesh_sensor_pub_value s) of
                 Inl e \<Rightarrow> Inl e
               | Inr d \<Rightarrow> if d then publish else fast_stage)
         else fast_stage)"
  unfolding mesh_sensor_publish_timer_callback_def tick_pub_needed_def Let_def
  by (simp split: sum.splits)

theorem tick_precedence_witness:
  "mesh_sensor_publish_timer_callback 330000 fast_window_state =
     Inr (mesh_sensor_server_restart_timer (mesh_sensor_publish 330000 fast_window_state))"
  using tick_precedence [of 330000 fast_window_state]
  by (simp add: Let_def fast_window_state_def fast_window_cadence_def initial_state_def
      delta_trigger_def native_trigger_def fast_cadence_trigger_def
      mesh_sensor_get_current_value_def word_eval)

text \<open>
  The claim fails 10000 ms after presence was published at 320000, with period 320000,
  divisor 32, a native up trigger of 5 that does not fire and the fast window (0, 1]:
  the claimed cascade suppresses, the callback publishes.
\<close>

theorem tick_claimed_counterexample:
  "tick_policy_claimed fast_window_state 330000 = Inr False \<and>
   map_sum id published (mesh_sensor_publish_timer_callback 330000 fast_window_state) =
     Inr [(1, 320000), (1, 330000)]"
  by (simp add: tick_policy_claimed_def mesh_sensor_publish_timer_callback_def tick_pub_needed_def
      Let_def fast_window_state_def fast_window_cadence_def initial_state_def
      delta_trigger_def native_trigger_def fast_cadence_trigger_def mesh_sensor_get_current_value_def
      mesh_sensor_server_restart_timer_def mesh_sensor_publish_def word_eval)

section \<open>The timer deadline\<close>

text \<open>
  C2 (as the code has it). \<open>mesh_sensor_server_restart_timer\<close> stops the timer; with a
  publish period of 0 it does nothing else. Otherwise, with a divisor above 1, the fast
  period is the period divided by the divisor (unsigned integer division) and the timeout
  is that same fast period; with a divisor of at most 1 the fast period is 0 and the
  timeout is the period. Then, with a minimum interval that is not 0 and exceeds the
  timeout, and a delta trigger configured, the timeout becomes the minimum interval. The
  timer is armed for the timeout, which is also recorded as the maximum sleep time.
  In the claim the timeout stays the publish period when the divisor is above 1.
\<close>

theorem restart_timer_deadline:
  "mesh_sensor_server_restart_timer s =
     (if mesh_sensor_publish_period s = 0 then s\<lparr> mesh_sensor_cadence_timer := None \<rparr>
      else
        let c = cadence s;
            fast_timeout =
              (if 1 < fast_cadence_period_divisor c
               then mesh_sensor_publish_period s div ucast (fast_cadence_period_divisor c)
               else 0);
            base = (if 1 < fast_cadence_period_divisor c then fast_timeout
                    else mesh_sensor_publish_period s);
            timeout =
              (if min_interval c \<noteq> 0 \<and> base < min_interval c \<and>
                  (trigger_delta_up c \<noteq> 0 \<or> trigger_delta_down c \<noteq> 0)
               then min_interval c else base)
        in s\<lparr> mesh_sensor_fast_publish_period := fast_timeout,
              mesh_sensor_sleep_max_time := timeout,
              mesh_sensor_cadence_timer := Some timeout \<rparr>)"
  by (auto simp add: mesh_sensor_server_restart_timer_def Let_def)

theorem restart_timer_deadline_witness:
  "mesh_sensor_server_restart_timer divisor32_state =
     divisor32_state\<lparr> mesh_sensor_fast_publish_period := 10000,
                      mesh_sensor_sleep_max_time := 10000,
                      mesh_sensor_cadence_timer := Some 10000 \<rparr>"
  using restart_timer_deadline [of divisor32_state]
  by (simp add: Let_def divisor32_state_def initial_state_def default_cadence_def word_eval)

text \<open>
  With period 320000 and divisor 32 the claimed algorithm arms the timer for 320000; the
  code arms it for 10000.
\<close>

theorem restart_timer_claimed_counterexample:
  "mesh_sensor_cadence_timer (restart_timer_claimed divisor32_state) = Some 320000 \<and>
   mesh_sensor_cadence_timer (mesh_sensor_server_restart_timer divisor32_state) = Some 10000"
  by (simp add: restart_timer_claimed_def mesh_sensor_server_restart_timer_def Let_def
      divisor32_state_def initial_state_def default_cadence_def word_eval)

section \<open>The fast cadence window\<close>

text \<open>
  C3. The fast cadence test splits three ways on the bounds: with high above low it holds
  iff low < value <= high; with high below low it holds iff value >= low or value < high;
  with equal bounds it holds iff the value equals low. When the tick evaluator gets to the
  fast stage (the period has not expired, no delta trigger is configured, the fast period
  is enabled and has elapsed), this test is its decision.
\<close>

theorem fast_cadence_window:
  "(sint (fast_cadence_low c) < sint (fast_cadence_high c) \<longrightarrow>
      (fast_cadence_trigger c v \<longleftrightarrow>
         sint (fast_cadence_low c) < sint v \<and> sint v \<le> sint (fast_cadence_high c))) \<and>
   (sint (fast_cadence_high c) < sint (fast_cadence_low c) \<longrightarrow>
      (fast_cadence_trigger c v \<longleftrightarrow>
         sint (fast_cadence_low c) \<le> sint v \<or> sint v < sint (fast_cadence_high c))) \<and>
   (fast_cadence_high c = fast_cadence_low c \<longrightarrow>
      (fast_cadence_trigger c v \<longleftrightarrow> v = fast_cadence_low c)) \<and>
   (mesh_sensor_fast_publish_period s \<noteq> 0 \<and>
    mesh_sensor_fast_publish_period s \<le> now - mesh_sensor_pub_time s \<and>
    \<not> (mesh_sensor_publish_period s \<noteq> 0 \<and>
       mesh_sensor_publish_period s \<le> now - mesh_sensor_pub_time s) \<and>
    trigger_delta_up (cadence s) = 0 \<and> trigger_delta_down (cadence s) = 0 \<longrightarrow>
      tick_pub_needed s now v = Inr (fast_cadence_trigger (cadence s) v))"
  by (simp add: fast_cadence_trigger_def tick_pub_needed_def Let_def)

theorem fast_cadence_window_witness:
  "\<not> fast_cadence_trigger (window_cadence 10 50) 10 \<and>
   fast_cadence_trigger (window_cadence 10 50) 11 \<and>
   fast_cadence_trigger (window_cadence 10 50) 50 \<and>
   \<not> fast_cadence_trigger (window_cadence 10 50) 51 \<and>
   fast_cadence_trigger (window_cadence 50 10) 60 \<and>
   fast_cadence_trigger (window_cadence 50 10) 5 \<and>
   \<not> fast_cadence_trigger (window_cadence 50 10) 30 \<and>
   fast_cadence_trigger (window_cadence 7 7) 7 \<and>
   \<not> fast_cadence_trigger (window_cadence 7 7) 8"
  using fast_cadence_window [of "window_cadence 10 50" 10]
    fast_cadence_window [of "window_cadence 10 50" 11]
    fast_cadence_window [of "window_cadence 10 50" 50]
    fast_cadence_window [of "window_cadence 10 50" 51]
    fast_cadence_window [of "window_cadence 50 10" 60]
    fast_cadence_window [of "window_cadence 50 10" 5]
    fast_cadence_window [of "window_cadence 50 10" 30]
    fast_cadence_window [of "window_cadence 7 7" 7]
    fast_cadence_window [of "window_cadence 7 7" 8]
  by (simp add: window_cadence_def default_cadence_def)

section \<open>The minimum interval between publications\<close>

lemma min_gap_ok_snoc:
  "min_gap_ok I (ts @ [t]) \<longleftrightarrow> min_gap_ok I ts \<and> (ts \<noteq> [] \<longrightarrow> I \<le> t - last ts)"
  by (induction I ts rule: min_gap_ok.induct) auto

lemma gap_inv_restart:
  "gap_inv I (mesh_sensor_server_restart_timer s) = gap_inv I s"
  by (simp add: gap_inv_def restart_timer_keeps)

lemma gap_inv_presence_field:
  "gap_inv I (s\<lparr> presence_detected := b \<rparr>) = gap_inv I s"
  "gap_inv I (s\<lparr> mesh_sensor_presence_detected_timer := t \<rparr>) = gap_inv I s"
  by (simp_all add: gap_inv_def)

lemma gap_inv_publish:
  assumes "gap_inv I s"
    and "published s \<noteq> [] \<longrightarrow> I \<le> now - mesh_sensor_pub_time s"
    and "mesh_sensor_publish_period s = 0 \<longrightarrow> unat now + unat I < 2 ^ 32"
  shows "gap_inv I (mesh_sensor_publish now s)"
  using assms
  by (simp add: gap_inv_def publish_fields min_gap_ok_snoc last_map)

text \<open>
  The test of \<open>mesh_sensor_value_changed\<close>, \<open>pub_time + min_interval > current_time\<close>,
  bounds the elapsed time when the sum does not wrap around.
\<close>

lemma word_gap_no_wrap:
  fixes p :: "32 word"
  assumes "\<not> now < p + I" and "unat p + unat I < 2 ^ 32"
  shows "I \<le> now - p"
proof -
  have sum: "unat (p + I) = unat p + unat I"
    using assms(2) by (simp add: unat_add_lem [THEN iffD1])
  from assms(1) have "unat (p + I) \<le> unat now"
    by (simp add: word_less_nat_alt not_less)
  with sum have le: "unat p + unat I \<le> unat now" by simp
  then have "p \<le> now" by (simp add: word_le_nat_alt)
  then have "unat (now - p) = unat now - unat p" by (rule unat_sub)
  with le show ?thesis by (simp add: word_le_nat_alt)
qed

lemma gap_inv_tick:
  assumes "min_interval (cadence s) = I" and "I \<noteq> 0" and "gap_inv I s"
    and "mesh_sensor_publish_period s = 0 \<longrightarrow> unat now + unat I < 2 ^ 32"
    and "mesh_sensor_publish_timer_callback now s = Inr s'"
  shows "gap_inv I s' \<and> cadence s' = cadence s \<and>
         mesh_sensor_publish_period s' = mesh_sensor_publish_period s"
proof (cases "now - mesh_sensor_pub_time s < I")
  case True
  with assms show ?thesis
    by (auto simp add: mesh_sensor_publish_timer_callback_def Let_def gap_inv_restart
        restart_timer_keeps)
next
  case False
  then have ok: "I \<le> now - mesh_sensor_pub_time s" by (simp add: not_less)
  from tick_result_cases [OF assms(5)] show ?thesis
  proof
    assume "s' = mesh_sensor_server_restart_timer s"
    with assms(3) show ?thesis by (simp add: gap_inv_restart restart_timer_keeps)
  next
    assume s': "s' = mesh_sensor_server_restart_timer (mesh_sensor_publish now s)"
    have "gap_inv I (mesh_sensor_publish now s)"
      using assms(3) ok assms(4) by (intro gap_inv_publish) simp_all
    with s' show ?thesis
      by (simp add: gap_inv_restart restart_timer_keeps publish_fields)
  qed
qed

lemma gap_inv_value_changed:
  assumes "min_interval (cadence s) = I" and "gap_inv I s"
    and "mesh_sensor_publish_period s \<noteq> 0 \<or>
         (\<not> cadence_unconfigured (cadence s) \<and> unat now + unat I < 2 ^ 32)"
  shows "gap_inv I (mesh_sensor_value_changed now s) \<and>
         cadence (mesh_sensor_value_changed now s) = cadence s \<and>
         mesh_sensor_publish_period (mesh_sensor_value_changed now s) =
           mesh_sensor_publish_period s"
proof (cases "mesh_sensor_publish_period s \<noteq> 0")
  case True
  with assms(2) show ?thesis by (simp add: mesh_sensor_value_changed_def Let_def)
next
  case False
  with assms(3) have conf: "\<not> cadence_unconfigured (cadence s)"
    and novf: "unat now + unat I < 2 ^ 32" by simp_all
  show ?thesis
  proof (cases "now < mesh_sensor_pub_time s + I")
    case True
    with False conf assms(1,2) show ?thesis
      by (auto simp add: mesh_sensor_value_changed_def Let_def cadence_unconfigured_def)
  next
    case guard: False
    have gap: "published s \<noteq> [] \<longrightarrow> I \<le> now - mesh_sensor_pub_time s"
    proof
      assume "published s \<noteq> []"
      with assms(2) False have "unat (mesh_sensor_pub_time s) + unat I < 2 ^ 32"
        unfolding gap_inv_def by blast
      with guard show "I \<le> now - mesh_sensor_pub_time s" by (rule word_gap_no_wrap)
    qed
    have pub: "gap_inv I (mesh_sensor_publish now s)"
      using assms(2) gap novf by (intro gap_inv_publish) simp_all
    from False conf guard assms(1) have
      "mesh_sensor_value_changed now s = s \<or>
       mesh_sensor_value_changed now s =
         mesh_sensor_server_restart_timer (mesh_sensor_publish now s)"
      by (auto simp add: mesh_sensor_value_changed_def Let_def cadence_unconfigured_def)
    then show ?thesis
    proof
      assume "mesh_sensor_value_changed now s = s"
      with assms(2) show ?thesis by simp
    next
      assume "mesh_sensor_value_changed now s =
                mesh_sensor_server_restart_timer (mesh_sensor_publish now s)"
      with pub show ?thesis
        by (simp add: gap_inv_restart restart_timer_keeps publish_fields)
    qed
  qed
qed

lemma gap_inv_handle_event:
  assumes "min_interval (cadence s) = I" and "I \<noteq> 0" and "gap_inv I s"
    and "mesh_sensor_publish_period s \<noteq> 0 \<or>
         (\<not> cadence_unconfigured (cadence s) \<and> unat (event_time e) + unat I < 2 ^ 32)"
    and "handle_event s e = Inr s'"
  shows "gap_inv I s' \<and> cadence s' = cadence s \<and>
         mesh_sensor_publish_period s' = mesh_sensor_publish_period s"
proof (cases e)
  case (Tick now)
  have novf: "mesh_sensor_publish_period s = 0 \<longrightarrow> unat now + unat I < 2 ^ 32"
    using assms(4) Tick by auto
  have "mesh_sensor_publish_timer_callback now s = Inr s'"
    using assms(5) Tick by simp
  with assms(1,2,3) novf show ?thesis by (rule gap_inv_tick)
next
  case (Edge now)
  let ?s1 = "s\<lparr> mesh_sensor_presence_detected_timer :=
                    Some (2 * MESH_PRESENCE_DETECTED_BLIND_TIME),
                 presence_detected := True \<rparr>"
  have "gap_inv I (mesh_sensor_value_changed now ?s1) \<and>
        cadence (mesh_sensor_value_changed now ?s1) = cadence ?s1 \<and>
        mesh_sensor_publish_period (mesh_sensor_value_changed now ?s1) =
          mesh_sensor_publish_period ?s1"
  proof (rule gap_inv_value_changed)
    show "min_interval (cadence ?s1) = I" using assms(1) by simp
    show "gap_inv I ?s1" using assms(3) by (simp add: gap_inv_presence_field)
    show "mesh_sensor_publish_period ?s1 \<noteq> 0 \<or>
          (\<not> cadence_unconfigured (cadence ?s1) \<and> unat now + unat I < 2 ^ 32)"
      using assms(4) Edge by simp
  qed
  with assms(3,5) Edge show ?thesis
    by (auto simp add: e93196_int_proc_def Let_def gap_inv_presence_field)
next
  case (BlindExpire now)
  let ?s1 = "s\<lparr> presence_detected := False \<rparr>"
  have "gap_inv I (mesh_sensor_value_changed now ?s1) \<and>
        cadence (mesh_sensor_value_changed now ?s1) = cadence ?s1 \<and>
        mesh_sensor_publish_period (mesh_sensor_value_changed now ?s1) =
          mesh_sensor_publish_period ?s1"
  proof (rule gap_inv_value_changed)
    show "min_interval (cadence ?s1) = I" using assms(1) by simp
    show "gap_inv I ?s1" using assms(3) by (simp add: gap_inv_presence_field)
    show "mesh_sensor_publish_period ?s1 \<noteq> 0 \<or>
          (\<not> cadence_unconfigured (cadence ?s1) \<and> unat now + unat I < 2 ^ 32)"
      using assms(4) BlindExpire by simp
  qed
  with assms(3,5) BlindExpire show ?thesis
    by (auto simp add: mesh_sensor_presence_detected_timer_callback_def)
qed

lemma gap_inv_run_events:
  assumes "min_interval (cadence s) = I" and "I \<noteq> 0" and "gap_inv I s"
    and "mesh_sensor_publish_period s \<noteq> 0 \<or>
         (\<not> cadence_unconfigured (cadence s) \<and>
          (\<forall>e \<in> set evs. unat (event_time e) + unat I < 2 ^ 32))"
  shows "gap_inv I (run_events s evs)"
  using assms
proof (induction evs arbitrary: s)
  case Nil
  then show ?case by simp
next
  case (Cons e es)
  show ?case
  proof (cases "handle_event s e")
    case (Inl f)
    with Cons.prems show ?thesis by simp
  next
    case (Inr s')
    have step: "gap_inv I s' \<and> cadence s' = cadence s \<and>
                mesh_sensor_publish_period s' = mesh_sensor_publish_period s"
      using Cons.prems(1,2,3) _ Inr
    proof (rule gap_inv_handle_event)
      from Cons.prems(4)
      show "mesh_sensor_publish_period s \<noteq> 0 \<or>
            (\<not> cadence_unconfigured (cadence s) \<and> unat (event_time e) + unat I < 2 ^ 32)"
        by auto
    qed
    have "gap_inv I (run_events s' es)"
    proof (rule Cons.IH)
      show "min_interval (cadence s') = I" using step Cons.prems(1) by simp
      show "I \<noteq> 0" by fact
      show "gap_inv I s'" using step by simp
      show "mesh_sensor_publish_period s' \<noteq> 0 \<or>
            (\<not> cadence_unconfigured (cadence s') \<and>
             (\<forall>e \<in> set es. unat (event_time e) + unat I < 2 ^ 32))"
        using step Cons.prems(4) by auto
    qed
    with Inr show ?thesis by simp
  qed
qed

text \<open>
  C4 (as the code has it). With a minimum interval \<open>I > 0\<close>, in every execution of ticks
  and presence events in any order, starting with nothing published, any two consecutive
  publications are at least \<open>I\<close> ticks apart, provided a publish period is set (only the
  tick callback publishes then), or the cadence is configured (divisor other than 1, or a
  delta trigger) and no event time plus \<open>I\<close> exceeds the 32-bit tick counter. With no
  period and the cadence not configured every presence change is published, whatever the
  minimum interval.
\<close>

theorem min_interval_between_publishes:
  assumes "min_interval (cadence s) = I" and "I \<noteq> 0" and "published s = []"
    and "mesh_sensor_publish_period s \<noteq> 0 \<or>
         (\<not> cadence_unconfigured (cadence s) \<and>
          (\<forall>e \<in> set evs. unat (event_time e) + unat I < 2 ^ 32))"
  shows "min_gap_ok I (map snd (published (run_events s evs)))"
proof -
  have "gap_inv I s" using assms(3) by (simp add: gap_inv_def)
  with assms(1,2) have "gap_inv I (run_events s evs)"
    using assms(4) by (rule gap_inv_run_events)
  then show ?thesis by (simp add: gap_inv_def)
qed

theorem min_interval_between_publishes_witness:
  "published (run_events periodic_state [Edge 1000, Tick 320000, Tick 320500, Tick 640000]) =
     [(1, 320000), (1, 640000)] \<and>
   min_gap_ok 1024
     (map snd (published
        (run_events periodic_state [Edge 1000, Tick 320000, Tick 320500, Tick 640000]))) \<and>
   published (run_events down_trigger_state [Edge 2000, BlindExpire 16000]) =
     [(1, 2000), (0, 16000)] \<and>
   min_gap_ok 1024
     (map snd (published (run_events down_trigger_state [Edge 2000, BlindExpire 16000])))"
proof -
  have a: "min_interval (cadence periodic_state) = 1024" "(1024 :: 32 word) \<noteq> 0"
    "published periodic_state = []" "mesh_sensor_publish_period periodic_state \<noteq> 0"
    by (simp_all add: periodic_state_def initial_state_def default_cadence_def)
  have b: "min_interval (cadence down_trigger_state) = 1024"
    "published down_trigger_state = []"
    "\<not> cadence_unconfigured (cadence down_trigger_state)"
    "\<forall>e \<in> set [Edge 2000, BlindExpire 16000]. unat (event_time e) + unat (1024 :: 32 word) < 2 ^ 32"
    by (simp_all add: down_trigger_state_def initial_state_def default_cadence_def
        cadence_unconfigured_def)
  have p: "published (run_events periodic_state [Edge 1000, Tick 320000, Tick 320500, Tick 640000]) =
     [(1, 320000), (1, 640000)]"
    by (simp add: periodic_state_def initial_state_def default_cadence_def
        e93196_int_proc_def mesh_sensor_value_changed_def mesh_sensor_publish_timer_callback_def
        tick_pub_needed_def mesh_sensor_server_restart_timer_def mesh_sensor_publish_def
        mesh_sensor_get_current_value_def Let_def word_eval)
  have q: "published (run_events down_trigger_state [Edge 2000, BlindExpire 16000]) =
     [(1, 2000), (0, 16000)]"
    by (simp add: down_trigger_state_def initial_state_def default_cadence_def
        e93196_int_proc_def mesh_sensor_presence_detected_timer_callback_def
        mesh_sensor_value_changed_def mesh_sensor_server_restart_timer_def mesh_sensor_publish_def
        mesh_sensor_get_current_value_def Let_def word_eval)
  from min_interval_between_publishes [of periodic_state 1024
      "[Edge 1000, Tick 320000, Tick 320500, Tick 640000]"] a
    min_interval_between_publishes [of down_trigger_state 1024
      "[Edge 2000, BlindExpire 16000]"] b p q
  show ?thesis by blast
qed

text \<open>
  With the default cadence, a minimum interval of 65536 ms and no period, presence
  detected at 1000 and lost at 15000 is published twice, 14000 ms apart.
\<close>

theorem min_interval_claimed_counterexample:
  "min_interval (cadence long_interval_state) = 65536 \<and>
   published (run_events long_interval_state [Edge 1000, BlindExpire 15000]) =
     [(1, 1000), (0, 15000)] \<and>
   \<not> min_gap_ok 65536
       (map snd (published (run_events long_interval_state [Edge 1000, BlindExpire 15000])))"
  by (simp add: long_interval_state_def initial_state_def default_cadence_def
      e93196_int_proc_def mesh_sensor_presence_detected_timer_callback_def
      mesh_sensor_value_changed_def mesh_sensor_publish_def mesh_sensor_get_current_value_def
      Let_def word_eval)

section \<open>Presence changes without a period\<close>

text \<open>
  C5. With no publish period and the cadence not configured (divisor 1, both deltas 0),
  the sensor interrupt publishes exactly once (the value 1) when presence was not
  detected and not at all when it already was, and the expiry of the blind timer
  publishes exactly once (the value 0) when presence was detected and not at all
  otherwise.
\<close>

theorem presence_transition_publishes_once:
  assumes "mesh_sensor_publish_period s = 0"
    and "cadence_unconfigured (cadence s)"
  shows "published (e93196_int_proc now s) =
           published s @ (if presence_detected s then [] else [(1, now)]) \<and>
         presence_detected (e93196_int_proc now s) \<and>
         published (mesh_sensor_presence_detected_timer_callback now s) =
           published s @ (if presence_detected s then [(0, now)] else []) \<and>
         \<not> presence_detected (mesh_sensor_presence_detected_timer_callback now s)"
  using assms
  by (simp add: e93196_int_proc_def mesh_sensor_presence_detected_timer_callback_def
      mesh_sensor_value_changed_def mesh_sensor_publish_def mesh_sensor_get_current_value_def
      cadence_unconfigured_def Let_def)

theorem presence_transition_publishes_once_witness:
  "published (e93196_int_proc 1000 (initial_state default_cadence)) = [(1, 1000)] \<and>
   published (e93196_int_proc 3000 (e93196_int_proc 1000 (initial_state default_cadence))) =
     [(1, 1000)] \<and>
   published (mesh_sensor_presence_detected_timer_callback 17000
     (e93196_int_proc 3000 (e93196_int_proc 1000 (initial_state default_cadence)))) =
     [(1, 1000), (0, 17000)]"
proof -
  let ?s0 = "initial_state default_cadence"
  let ?s1 = "e93196_int_proc 1000 ?s0"
  let ?s2 = "e93196_int_proc 3000 ?s1"
  have c0: "mesh_sensor_publish_period ?s0 = 0" "cadence_unconfigured (cadence ?s0)"
    by (simp_all add: initial_state_def default_cadence_def cadence_unconfigured_def)
  have p0: "\<not> presence_detected ?s0" "published ?s0 = []"
    by (simp_all add: initial_state_def)
  have keep1: "mesh_sensor_publish_period ?s1 = 0" "cadence_unconfigured (cadence ?s1)"
    by (simp_all add: e93196_int_proc_def mesh_sensor_value_changed_def mesh_sensor_publish_def
        Let_def initial_state_def default_cadence_def cadence_unconfigured_def)
  have keep2: "mesh_sensor_publish_period ?s2 = 0" "cadence_unconfigured (cadence ?s2)"
    by (simp_all add: e93196_int_proc_def mesh_sensor_value_changed_def mesh_sensor_publish_def
        Let_def initial_state_def default_cadence_def cadence_unconfigured_def)
  from presence_transition_publishes_once [OF c0, of 1000] p0
  have s1: "published ?s1 = [(1, 1000)]" "presence_detected ?s1" by simp_all
  from presence_transition_publishes_once [OF keep1, of 3000] s1
  have s2: "published ?s2 = [(1, 1000)]" "presence_detected ?s2" by simp_all
  from presence_transition_publishes_once [OF keep2, of 17000] s2
  have "published (mesh_sensor_presence_detected_timer_callback 17000 ?s2) =
          [(1, 1000), (0, 17000)]" by simp
  with s1 s2 show ?thesis by simp
qed

section \<open>The percentage trigger\<close>






section \<open>The period notification\<close>

lemma restart_timer_armed:
  "mesh_sensor_cadence_timer (mesh_sensor_server_restart_timer s) =
     (if mesh_sensor_publish_period s = 0 then None
      else
        let c = cadence s;
            base = (if 1 < fast_cadence_period_divisor c
                    then mesh_sensor_publish_period s div ucast (fast_cadence_period_divisor c)
                    else mesh_sensor_publish_period s)
        in Some (if min_interval c \<noteq> 0 \<and> base < min_interval c \<and>
                    (trigger_delta_up c \<noteq> 0 \<or> trigger_delta_down c \<noteq> 0)
                 then min_interval c else base))"
  by (auto simp add: mesh_sensor_server_restart_timer_def Let_def)

lemma notify_period_set_fields:
  "(element_idx \<noteq> MESH_MOTION_SENSOR_INDEX \<or> company_id \<noteq> company_sig \<or> model_id \<noteq> model_srv \<longrightarrow>
      mesh_app_notify_period_set company_sig model_srv element_idx company_id model_id period s =
        (False, s)) \<and>
   (element_idx = MESH_MOTION_SENSOR_INDEX \<and> company_id = company_sig \<and> model_id = model_srv \<longrightarrow>
      (\<exists>s'. mesh_app_notify_period_set company_sig model_srv element_idx company_id model_id period s =
               (True, s') \<and>
            mesh_sensor_publish_period s' = period \<and>
            mesh_sensor_pub_time s' = 0 \<and>
            cadence s' = cadence s \<and> published s' = published s \<and>
            mesh_sensor_cadence_timer s' =
              (if period = 0 then None
               else
                 let c = cadence s;
                     base = (if 1 < fast_cadence_period_divisor c
                             then period div ucast (fast_cadence_period_divisor c) else period)
                 in Some (if min_interval c \<noteq> 0 \<and> base < min_interval c \<and>
                             (trigger_delta_up c \<noteq> 0 \<or> trigger_delta_down c \<noteq> 0)
                          then min_interval c else base))))"
  by (auto simp add: mesh_app_notify_period_set_def Let_def restart_timer_keeps
      restart_timer_armed)

text \<open>
  C7. \<open>mesh_app_notify_period_set\<close> returns false and changes nothing when the element
  index, the company id or the model id is not the sensor server's; otherwise it stores
  the new period, restarts the cadence timer, sets the time of the last publication to 0
  and returns true (\<open>notify_period_set_fields\<close>). The reset is there so that the first
  tick publishes whatever the time of the previous publication; its comment says "we will
  publish on the first expiration". At the following input the code does not: presence is
  detected at tick count 500 and not published; the notification for a period of 320000
  is accepted, arms the timer for 10000 (divisor 32) and sets the time of the last
  publication to 0; the first tick after it, at 10500, measures 10500 ticks elapsed since
  0, which is below the period, the fast window (bounds 0 and 0) does not hold for the
  value 1, and nothing is published.
\<close>

theorem period_set_first_tick_silent:
  "\<not> presence_detected (initial_state (default_cadence\<lparr> fast_cadence_period_divisor := 32 \<rparr>)) \<and>
   presence_detected just_booted_state \<and> published just_booted_state = [] \<and>
   mesh_app_notify_period_set 0xFFFF 0x1100 MESH_MOTION_SENSOR_INDEX 0xFFFF 0x1100 320000
     just_booted_state = (True, period_set_state) \<and>
   mesh_sensor_publish_period period_set_state = 320000 \<and>
   mesh_sensor_pub_time period_set_state = 0 \<and>
   mesh_sensor_cadence_timer period_set_state = Some 10000 \<and>
   mesh_sensor_publish_timer_callback 10500 period_set_state = Inr period_set_state \<and>
   published period_set_state = []"
  by (simp add: period_set_state_def just_booted_state_def initial_state_def default_cadence_def
      mesh_app_notify_period_set_def MESH_MOTION_SENSOR_INDEX_def e93196_int_proc_def
      mesh_sensor_value_changed_def mesh_sensor_server_restart_timer_def
      mesh_sensor_publish_timer_callback_def tick_pub_needed_def fast_cadence_trigger_def
      mesh_sensor_get_current_value_def Let_def word_eval)

theorem period_set_first_tick_silent_witness:
  "map_sum id published (mesh_sensor_publish_timer_callback 10500 period_set_state) = Inr []"
  using period_set_first_tick_silent by simp

section \<open>The cadence change handler\<close>

text \<open>
  C8 (as the code has it). \<open>mesh_sensor_server_process_cadence_changed\<close> validates
  nothing and reports nothing (it returns \<open>void\<close>): for the sensor's element, whatever
  cadence is in the sensor's configuration when it runs, well formed or not, stays there,
  is saved to NVRAM and is the one the cadence timer is restarted with, and the time of
  the last publication is set to 0.
\<close>

theorem cadence_changed_applies:
  "mesh_sensor_server_process_cadence_changed MESH_SENSOR_SERVER_ELEMENT_INDEX s =
     Inr ((mesh_sensor_server_restart_timer (s\<lparr> nvram_cadence := Some (cadence s) \<rparr>))
            \<lparr> mesh_sensor_pub_time := 0 \<rparr>) \<and>
   map_sum id cadence
     (mesh_sensor_server_process_cadence_changed MESH_SENSOR_SERVER_ELEMENT_INDEX s) =
     Inr (cadence s) \<and>
   map_sum id nvram_cadence
     (mesh_sensor_server_process_cadence_changed MESH_SENSOR_SERVER_ELEMENT_INDEX s) =
     Inr (Some (cadence s)) \<and>
   map_sum id mesh_sensor_pub_time
     (mesh_sensor_server_process_cadence_changed MESH_SENSOR_SERVER_ELEMENT_INDEX s) = Inr 0"
  by (simp add: mesh_sensor_server_process_cadence_changed_def Let_def restart_timer_keeps
      MESH_SENSOR_SERVER_ELEMENT_INDEX_def elements_num_def)

theorem cadence_changed_applies_witness:
  "map_sum id nvram_cadence
     (mesh_sensor_server_process_cadence_changed 0 (initial_state default_cadence)) =
     Inr (Some default_cadence)"
proof -
  have "cadence (initial_state default_cadence) = default_cadence"
    by (simp add: initial_state_def)
  with cadence_changed_applies [of "initial_state default_cadence"]
  show ?thesis by (simp add: MESH_SENSOR_SERVER_ELEMENT_INDEX_def restart_timer_keeps)
qed

text \<open>
  A cadence with divisor 0 is not rejected: the handler saves it to NVRAM, arms the
  timer with it and resets the time of the last publication.
\<close>

theorem cadence_validation_counterexample:
  "\<not> cadence_valid (cadence zero_divisor_state) \<and>
   mesh_sensor_server_process_cadence_changed MESH_SENSOR_SERVER_ELEMENT_INDEX zero_divisor_state =
     Inr (zero_divisor_state
            \<lparr> mesh_sensor_pub_time := 0,
              mesh_sensor_fast_publish_period := 0,
              mesh_sensor_sleep_max_time := 320000,
              mesh_sensor_cadence_timer := Some 320000,
              nvram_cadence := Some (default_cadence\<lparr> fast_cadence_period_divisor := 0 \<rparr>) \<rparr>)"
  by (simp add: cadence_valid_def zero_divisor_state_def initial_state_def default_cadence_def
      mesh_sensor_server_process_cadence_changed_def mesh_sensor_server_restart_timer_def Let_def
      MESH_SENSOR_SERVER_ELEMENT_INDEX_def elements_num_def word_eval)

section \<open>Division by the current value\<close>

text \<open>
  The value last published is 0 or 1 in every state the handlers reach from such a state:
  only \<open>mesh_sensor_publish\<close> writes it, with the current presence.
\<close>

lemma pub_value_publish:
  "mesh_sensor_pub_value (mesh_sensor_publish now s) \<in> {0, 1}"
  by (simp add: mesh_sensor_publish_def mesh_sensor_get_current_value_def Let_def)

lemma pub_value_tick:
  assumes "mesh_sensor_pub_value s \<in> {0, 1}"
    and "mesh_sensor_publish_timer_callback now s = Inr s'"
  shows "mesh_sensor_pub_value s' \<in> {0, 1}"
  using tick_result_cases [OF assms(2)] assms(1) pub_value_publish [of now s]
  by (auto simp add: restart_timer_keeps)

lemma pub_value_value_changed:
  assumes "mesh_sensor_pub_value s \<in> {0, 1}"
  shows "mesh_sensor_pub_value (mesh_sensor_value_changed now s) \<in> {0, 1}"
proof -
  have "mesh_sensor_value_changed now s = s \<or>
        mesh_sensor_value_changed now s = mesh_sensor_publish now s \<or>
        mesh_sensor_value_changed now s =
          mesh_sensor_server_restart_timer (mesh_sensor_publish now s)"
    by (simp add: mesh_sensor_value_changed_def Let_def)
  with assms pub_value_publish [of now s] show ?thesis
    by (auto simp add: restart_timer_keeps)
qed

lemma pub_value_int_proc:
  assumes "mesh_sensor_pub_value s \<in> {0, 1}"
  shows "mesh_sensor_pub_value (e93196_int_proc now s) \<in> {0, 1}"
proof (cases "presence_detected s")
  case True
  with assms show ?thesis by (simp add: e93196_int_proc_def Let_def)
next
  case False
  let ?s1 = "s\<lparr> mesh_sensor_presence_detected_timer :=
                    Some (2 * MESH_PRESENCE_DETECTED_BLIND_TIME),
                 presence_detected := True \<rparr>"
  from assms have "mesh_sensor_pub_value ?s1 \<in> {0, 1}" by simp
  then have "mesh_sensor_pub_value (mesh_sensor_value_changed now ?s1) \<in> {0, 1}"
    by (rule pub_value_value_changed)
  with False show ?thesis by (simp add: e93196_int_proc_def Let_def)
qed

lemma pub_value_presence_timer:
  assumes "mesh_sensor_pub_value s \<in> {0, 1}"
  shows "mesh_sensor_pub_value (mesh_sensor_presence_detected_timer_callback now s) \<in> {0, 1}"
proof (cases "presence_detected s")
  case True
  from assms have "mesh_sensor_pub_value (s\<lparr> presence_detected := False \<rparr>) \<in> {0, 1}"
    by simp
  then have "mesh_sensor_pub_value
      (mesh_sensor_value_changed now (s\<lparr> presence_detected := False \<rparr>)) \<in> {0, 1}"
    by (rule pub_value_value_changed)
  with True show ?thesis by (simp add: mesh_sensor_presence_detected_timer_callback_def)
next
  case False
  with assms show ?thesis by (simp add: mesh_sensor_presence_detected_timer_callback_def)
qed

lemma pub_value_handle_event:
  assumes "mesh_sensor_pub_value s \<in> {0, 1}" and "handle_event s e = Inr s'"
  shows "mesh_sensor_pub_value s' \<in> {0, 1}"
proof (cases e)
  case (Tick now)
  with assms(2) have "mesh_sensor_publish_timer_callback now s = Inr s'" by simp
  with assms(1) show ?thesis by (rule pub_value_tick)
next
  case (Edge now)
  with assms(2) have "s' = e93196_int_proc now s" by simp
  with assms(1) show ?thesis by (simp only: pub_value_int_proc)
next
  case (BlindExpire now)
  with assms(2) have "s' = mesh_sensor_presence_detected_timer_callback now s" by simp
  with assms(1) show ?thesis by (simp only: pub_value_presence_timer)
qed

lemma pub_value_run_events:
  "mesh_sensor_pub_value s \<in> {0, 1} \<Longrightarrow> mesh_sensor_pub_value (run_events s evs) \<in> {0, 1}"
proof (induction evs arbitrary: s)
  case Nil
  then show ?case by simp
next
  case (Cons e es)
  show ?case
  proof (cases "handle_event s e")
    case (Inl f)
    with Cons.prems show ?thesis by simp
  next
    case (Inr s')
    with Cons.prems have "mesh_sensor_pub_value s' \<in> {0, 1}"
      by (rule pub_value_handle_event)
    then have "mesh_sensor_pub_value (run_events s' es) \<in> {0, 1}" by (rule Cons.IH)
    with Inr show ?thesis by simp
  qed
qed

lemma pub_value_config_handlers:
  "mesh_sensor_pub_value (snd (mesh_app_notify_period_set cs ms e c m p s)) =
     mesh_sensor_pub_value s"
  "mesh_sensor_server_process_cadence_changed e s = Inr s' \<Longrightarrow>
     mesh_sensor_pub_value s' = mesh_sensor_pub_value s"
  by (auto simp add: mesh_app_notify_period_set_def
      mesh_sensor_server_process_cadence_changed_def Let_def restart_timer_keeps
      split: if_splits)



section \<open>The triggers of the event-driven path\<close>

lemma word_wrapped_difference:
  fixes pub :: "32 word"
  assumes "pub < up" and "cur \<le> 1"
  shows "\<not> pub - up < cur"
proof -
  from assms(1) have "pub - up \<noteq> 0" by auto
  then have "0 < unat (pub - up)" by (simp add: unat_gt_0)
  moreover from assms(2) have "unat cur \<le> 1" by (simp add: word_le_nat_alt)
  ultimately show ?thesis by (simp add: word_less_nat_alt)
qed

lemma word_unwrapped_difference:
  fixes pub :: "32 word"
  assumes "up \<noteq> 0" and "up \<le> pub" and "pub \<le> cur"
  shows "pub - up < cur"
proof -
  from assms(2) have "unat (pub - up) = unat pub - unat up" by (rule unat_sub)
  moreover from assms(1) have "0 < unat up" by (simp add: unat_gt_0)
  moreover from assms(2) have "unat up \<le> unat pub" by (simp add: word_le_nat_alt)
  moreover from assms(3) have "unat pub \<le> unat cur" by (simp add: word_le_nat_alt)
  ultimately show ?thesis by (simp add: word_less_nat_alt)
qed

text \<open>
  C10 (as the code has it). In the event-driven path (no period, cadence configured, the
  minimum interval test passed) \<open>mesh_sensor_value_changed\<close> publishes iff the down delta
  is configured and current < last - down, or the up delta is configured and
  current > last - up (minus, not plus), both differences computed in \<open>uint32_t\<close> and so
  wrapping around. Hence, when the up delta is not 0 and at most the value last published
  (no wrap), every current value from the last one upwards is published, whether or not
  the increase reaches the delta; when the value last published is below the up delta the
  difference wraps, the presence value (0 or 1) does not exceed it, and with no down delta
  nothing is published, an increase from 0 to 1 included.
\<close>

theorem value_changed_trigger:
  assumes "mesh_sensor_publish_period s = 0"
    and "\<not> cadence_unconfigured (cadence s)"
    and "\<not> now < mesh_sensor_pub_time s + min_interval (cadence s)"
  shows "mesh_sensor_value_changed now s =
           (if (trigger_delta_down (cadence s) \<noteq> 0 \<and>
                  mesh_sensor_get_current_value s <
                    mesh_sensor_pub_value s - trigger_delta_down (cadence s)) \<or>
               (trigger_delta_up (cadence s) \<noteq> 0 \<and>
                  mesh_sensor_pub_value s - trigger_delta_up (cadence s) <
                    mesh_sensor_get_current_value s)
            then mesh_sensor_server_restart_timer (mesh_sensor_publish now s) else s) \<and>
         (trigger_delta_up (cadence s) \<noteq> 0 \<and>
          trigger_delta_up (cadence s) \<le> mesh_sensor_pub_value s \<and>
          mesh_sensor_pub_value s \<le> mesh_sensor_get_current_value s \<longrightarrow>
            mesh_sensor_value_changed now s =
              mesh_sensor_server_restart_timer (mesh_sensor_publish now s)) \<and>
         (trigger_delta_down (cadence s) = 0 \<and>
          mesh_sensor_pub_value s < trigger_delta_up (cadence s) \<longrightarrow>
            mesh_sensor_value_changed now s = s)"
proof -
  let ?c = "cadence s"
  let ?cur = "mesh_sensor_get_current_value s"
  let ?pub = "mesh_sensor_pub_value s"
  have eq: "mesh_sensor_value_changed now s =
           (if (trigger_delta_down ?c \<noteq> 0 \<and> ?cur < ?pub - trigger_delta_down ?c) \<or>
               (trigger_delta_up ?c \<noteq> 0 \<and> ?pub - trigger_delta_up ?c < ?cur)
            then mesh_sensor_server_restart_timer (mesh_sensor_publish now s) else s)"
    using assms
    by (auto simp add: mesh_sensor_value_changed_def Let_def cadence_unconfigured_def)
  have up: "trigger_delta_up ?c \<noteq> 0 \<and> trigger_delta_up ?c \<le> ?pub \<and> ?pub \<le> ?cur \<longrightarrow>
           mesh_sensor_value_changed now s =
             mesh_sensor_server_restart_timer (mesh_sensor_publish now s)"
    using eq word_unwrapped_difference [of "trigger_delta_up ?c" ?pub ?cur] by auto
  have "?cur \<le> 1" by (simp add: mesh_sensor_get_current_value_def)
  then have wrap: "trigger_delta_down ?c = 0 \<and> ?pub < trigger_delta_up ?c \<longrightarrow>
           mesh_sensor_value_changed now s = s"
    using eq word_wrapped_difference [of ?pub "trigger_delta_up ?c" ?cur] by auto
  from eq up wrap show ?thesis by (intro conjI)
qed

theorem value_changed_trigger_witness:
  "mesh_sensor_value_changed 5000 (up_trigger_state\<lparr> presence_detected := True \<rparr>) =
     up_trigger_state\<lparr> presence_detected := True \<rparr> \<and>
   published (mesh_sensor_value_changed 5000
      (up_trigger_state\<lparr> presence_detected := True, mesh_sensor_pub_value := 1,
                           cadence := default_cadence\<lparr> trigger_delta_up := 1 \<rparr> \<rparr>)) =
     [(1, 5000)]"
proof -
  let ?s = "up_trigger_state\<lparr> presence_detected := True \<rparr>"
  let ?t = "up_trigger_state\<lparr> presence_detected := True, mesh_sensor_pub_value := 1,
                              cadence := default_cadence\<lparr> trigger_delta_up := 1 \<rparr> \<rparr>"
  have s: "mesh_sensor_publish_period ?s = 0" "\<not> cadence_unconfigured (cadence ?s)"
    "\<not> 5000 < mesh_sensor_pub_time ?s + min_interval (cadence ?s)"
    by (simp_all add: up_trigger_state_def initial_state_def default_cadence_def
        cadence_unconfigured_def word_eval)
  have t: "mesh_sensor_publish_period ?t = 0" "\<not> cadence_unconfigured (cadence ?t)"
    "\<not> 5000 < mesh_sensor_pub_time ?t + min_interval (cadence ?t)"
    by (simp_all add: up_trigger_state_def initial_state_def default_cadence_def
        cadence_unconfigured_def word_eval)
  have "mesh_sensor_value_changed 5000 ?s = ?s"
    using value_changed_trigger [OF s, THEN conjunct2, THEN conjunct2]
    by (simp add: up_trigger_state_def initial_state_def default_cadence_def word_eval)
  moreover have "mesh_sensor_value_changed 5000 ?t =
      mesh_sensor_server_restart_timer (mesh_sensor_publish 5000 ?t)"
    using value_changed_trigger [OF t, THEN conjunct2, THEN conjunct1]
    by (simp add: up_trigger_state_def initial_state_def default_cadence_def word_eval
        mesh_sensor_get_current_value_def)
  ultimately show ?thesis
    by (simp add: restart_timer_keeps publish_fields mesh_sensor_get_current_value_def
        up_trigger_state_def initial_state_def)
qed

text \<open>
  With no period, an up delta of 5, nothing published yet (value 0) and the minimum
  interval of 1024 elapsed at 5000, presence goes from 0 to 1 and nothing is published:
  0 - 5 is 4294967291 in \<open>uint32_t\<close>, which 1 does not exceed.
\<close>

theorem value_changed_increase_counterexample:
  "mesh_sensor_publish_period up_trigger_state = 0 \<and>
   trigger_delta_up (cadence up_trigger_state) \<noteq> 0 \<and>
   \<not> 5000 < mesh_sensor_pub_time up_trigger_state + min_interval (cadence up_trigger_state) \<and>
   \<not> presence_detected up_trigger_state \<and>
   mesh_sensor_pub_value up_trigger_state = 0 \<and>
   mesh_sensor_get_current_value (e93196_int_proc 5000 up_trigger_state) = 1 \<and>
   published (e93196_int_proc 5000 up_trigger_state) = []"
  by (simp add: up_trigger_state_def initial_state_def default_cadence_def e93196_int_proc_def
      mesh_sensor_value_changed_def mesh_sensor_get_current_value_def Let_def word_eval)

end
